theory Spec2Isabelle
  imports Main
begin

section \<open>The per-request Context of @leizm/web (src/lib/context.ts)\<close>

text \<open>
  The class \<open>Context\<close> owns the Request and Response wrappers of one inbound request,
  a stack of continuations (\<open>nextHandleStack\<close>), an optional session and optional route
  information. Its methods mutate the object and objects it shares with its callers, so
  the embedding passes the state explicitly: the fields of the object are a record, and the
  objects that are shared by reference (the header tables of the inbound request, the raw
  response) live in a store indexed by references.

  Every \<open>throw\<close> of the code, and every read of a property of \<open>undefined\<close>, is the
  \<open>Inl\<close> branch of a result.
\<close>

subsection \<open>Values, errors and the store\<close>

type_synonym ref = nat

text \<open>A header table is a JavaScript object used as a dictionary: its own properties.\<close>

type_synonym HeaderObj = "string \<rightharpoonup> string"

datatype error =
    TypeError        \<comment> \<open>reading a property of \<open>undefined\<close>\<close>
  | Error string     \<comment> \<open>\<open>throw new Error(msg)\<close>\<close>

text \<open>The events a Context emits from the listeners that \<open>init\<close> registers.\<close>

datatype event = Finish | WriteHead

text \<open>
  The state of one raw \<open>ServerResponse\<close>: the headers set on it so far, the
  one-shot listeners of its \<open>finish\<close> event and the hooks that run before its head is
  written. A listener registered by \<open>init\<close> is the closure \<open>() => this.emit(e)\<close>; it is
  recorded as the event \<open>e\<close> it emits.
\<close>

record ServerResponseState =
  out_headers :: HeaderObj
  once_finish :: "event list"
  write_head_hooks :: "event list"

text \<open>
  The store: header tables and raw responses, by reference. Every reference from
  \<open>fresh\<close> on is unallocated; a new object takes the reference \<open>fresh\<close>.
\<close>

record Store =
  headerObjs :: "ref \<Rightarrow> HeaderObj"
  fresh :: ref
  responses :: "ref \<Rightarrow> ServerResponseState"

type_synonym IncomingMessage = ref
type_synonym ServerResponse = ref

text \<open>
  The object spread \<open>{ ...o }\<close> allocates a new object with a copy of the own
  properties of \<open>o\<close>; \<open>delete o[n]\<close> removes the own property \<open>n\<close> of \<open>o\<close> in place.
\<close>

definition object_spread :: "ref \<Rightarrow> Store \<Rightarrow> ref \<times> Store" where
  "object_spread a st =
     (fresh st,
      st\<lparr>headerObjs := (headerObjs st)(fresh st := headerObjs st a),
         fresh := Suc (fresh st)\<rparr>)"

definition delete_property :: "ref \<Rightarrow> string \<Rightarrow> Store \<Rightarrow> Store" where
  "delete_property a n st =
     st\<lparr>headerObjs := (headerObjs st)(a := (headerObjs st a)(n := None))\<rparr>"

subsection \<open>The wrappers and the declarations used by the class\<close>

text \<open>
  The members of the Request wrapper that \<open>context.ts\<close> reads: the raw request \<open>req\<close>,
  \<open>method\<close> (possibly \<open>undefined\<close>; the field \<open>method_prop\<close>), \<open>path\<close> and the reference
  to the header table \<open>headers\<close>. The class itself lives in \<open>./request\<close>.
\<close>

record Request =
  req :: IncomingMessage
  method_prop :: "string option"
  path :: string
  headers :: ref

text \<open>The member of the Response wrapper that \<open>context.ts\<close> reads: the raw response.\<close>

record Response =
  res :: ServerResponse

text \<open>
  \<open>RawRouteInfo\<close>, as the object literal in the getter \<open>route\<close> builds it
  (\<open>method_prop\<close> is its property \<open>method\<close>).
\<close>

record RawRouteInfo =
  method_prop :: string
  path :: string

text \<open>
  Modelled from the spec: \<open>ProxyTarget\<close> is declared in \<open>./module/proxy.request\<close>, which
  is not part of the available source. The spec gives the proxy target descriptor as
  \<open>{ protocol, host, port, path, headers }\<close>; \<open>headers\<close> is absent until assigned.
\<close>

record ProxyTarget =
  protocol :: string
  host :: string
  port :: string
  path :: string
  headers :: "ref option"

text \<open>
  Modelled from the spec: \<open>Request.inited\<close> and \<open>Response.inited\<close> are hooks of the
  wrapper classes in \<open>./request\<close> and \<open>./response\<close>, which are not part of the available
  source. The spec gives initialisation no effect beyond constructing the wrappers, so the
  hooks leave the wrapper as constructed.
\<close>

definition Request_inited :: "Request \<Rightarrow> Request" where
  "Request_inited q = q"

definition Response_inited :: "Response \<Rightarrow> Response" where
  "Response_inited s = s"

text \<open>
  Modelled from the spec: \<open>Response.setHeader\<close> is a method of the wrapper class in
  \<open>./response\<close>, which is not part of the available source. By the spec, \<open>init\<close> "mutates
  the raw response by setting an identifying header": the method sets the header on the
  raw response that the wrapper holds.
\<close>

definition setHeader :: "Response \<Rightarrow> string \<Rightarrow> string \<Rightarrow> Store \<Rightarrow> Store" where
  "setHeader s name v st =
     st\<lparr>responses := (responses st)
          (res s := (responses st (res s))
             \<lparr>out_headers := (out_headers (responses st (res s)))(name \<mapsto> v)\<rparr>)\<rparr>"

text \<open>\<open>res.once("finish", cb)\<close> of Node's EventEmitter: one more one-shot listener.\<close>

definition once_finish_listener :: "ServerResponse \<Rightarrow> event \<Rightarrow> Store \<Rightarrow> Store" where
  "once_finish_listener r e st =
     st\<lparr>responses := (responses st)
          (r := (responses st r)\<lparr>once_finish := once_finish (responses st r) @ [e]\<rparr>)\<rparr>"

text \<open>
  Modelled from the spec: \<open>onWriteHead\<close> is the default export of
  \<open>./module/on.writehead\<close>, which is not part of the available source. By the spec it
  registers a listener "so that just before headers are sent a \<open>writeHead\<close> event is
  emitted": one more hook on the raw response.
\<close>

definition onWriteHead :: "ServerResponse \<Rightarrow> event \<Rightarrow> Store \<Rightarrow> Store" where
  "onWriteHead r e st =
     st\<lparr>responses := (responses st)
          (r := (responses st r)
             \<lparr>write_head_hooks := write_head_hooks (responses st r) @ [e]\<rparr>)\<rparr>"

subsection \<open>The class Context\<close>

text \<open>
  The fields of the class that its methods below read or write. \<open>request_slot\<close> and
  \<open>response_slot\<close> are the protected fields \<open>_request\<close> and \<open>_response\<close> (\<open>None\<close> is
  \<open>undefined\<close>); \<open>nextHandleStack\<close> is the array of continuations, its top at the end;
  the two constructors are the swappable fields of the class; \<open>SYMBOL_SESSION\<close> and
  \<open>SYMBOL_RAW_ROUTE_INFO\<close> are the optional fields under these symbols. A continuation is
  a value of type \<open>'k\<close>, a session instance a value of type \<open>'s\<close>.
\<close>

record ('k, 's) Context =
  request_slot :: "Request option"
  response_slot :: "Response option"
  nextHandleStack :: "'k list"
  requestConstructor :: "IncomingMessage \<Rightarrow> Request"
  responseConstructor :: "ServerResponse \<Rightarrow> Response"
  SYMBOL_SESSION :: "'s option"
  SYMBOL_RAW_ROUTE_INFO :: "RawRouteInfo option"

type_synonym ('k, 's) World = "('k, 's) Context \<times> Store"

text \<open>
  A new object, by the field initialisers of the class. The default constructors are the
  classes \<open>Request\<close> and \<open>Response\<close>, which are not part of the available source, so the
  constructors are parameters.
\<close>

definition newContext ::
  "(IncomingMessage \<Rightarrow> Request) \<Rightarrow> (ServerResponse \<Rightarrow> Response) \<Rightarrow> ('k, 's) Context" where
  "newContext rc sc =
     \<lparr>request_slot = None, response_slot = None, nextHandleStack = [],
      requestConstructor = rc, responseConstructor = sc,
      SYMBOL_SESSION = None, SYMBOL_RAW_ROUTE_INFO = None\<rparr>"

text \<open>The getter \<open>session\<close>: the attached session, or an Error when there is none.\<close>

definition session :: "('k, 's) Context \<Rightarrow> error + 's" where
  "session ctx =
     (case SYMBOL_SESSION ctx of
        Some s \<Rightarrow> Inr s
      | None \<Rightarrow> Inl (Error ''ctx.session: please use component.session() middleware firstly''))"

definition createRequest :: "('k, 's) Context \<Rightarrow> IncomingMessage \<Rightarrow> Request" where
  "createRequest ctx rq = requestConstructor ctx rq"

definition createResponse :: "('k, 's) Context \<Rightarrow> ServerResponse \<Rightarrow> Response" where
  "createResponse ctx rs = responseConstructor ctx rs"

text \<open>The getters \<open>request\<close> and \<open>response\<close> return the fields as they are.\<close>

definition request :: "('k, 's) Context \<Rightarrow> Request option" where
  "request ctx = request_slot ctx"

definition response :: "('k, 's) Context \<Rightarrow> Response option" where
  "response ctx = response_slot ctx"

text \<open>The hook \<open>inited\<close> of the class has an empty body.\<close>

definition inited :: "('k, 's) Context \<Rightarrow> ('k, 's) Context" where
  "inited ctx = ctx"

text \<open>
  \<open>init(req, res)\<close>: both wrappers are constructed and assigned, the header
  \<open>X-Powered-By\<close> is set through the getter \<open>response\<close>, the two listeners are registered
  on the raw response \<open>res\<close>, and the object itself is returned.
\<close>

definition init ::
  "IncomingMessage \<Rightarrow> ServerResponse \<Rightarrow> ('k, 's) World \<Rightarrow> error + ('k, 's) World" where
  "init rq rs w =
     (case w of (ctx, st) \<Rightarrow>
        let c1 = ctx\<lparr>request_slot := Some (Request_inited (createRequest ctx rq))\<rparr>;
            c2 = c1\<lparr>response_slot := Some (Response_inited (createResponse c1 rs))\<rparr>
        in (case response c2 of
              None \<Rightarrow> Inl TypeError
            | Some s \<Rightarrow>
                let st1 = setHeader s ''X-Powered-By'' ''@leizm/web'' st;
                    st2 = once_finish_listener rs Finish st1;
                    st3 = onWriteHead rs WriteHead st2
                in Inr (inited c2, st3)))"

text \<open>\<open>a || ""\<close> on an optional string: \<open>undefined\<close> and the empty string are falsy.\<close>

definition or_empty :: "string option \<Rightarrow> string" where
  "or_empty m = (case m of None \<Rightarrow> '''' | Some s \<Rightarrow> (if s = '''' then '''' else s))"

text \<open>
  The getter \<open>route\<close>: the attached route information, or one built from the request.
  Reading \<open>this.request.method\<close> when no request was assigned is a TypeError.
\<close>

definition route :: "('k, 's) Context \<Rightarrow> error + RawRouteInfo" where
  "route ctx =
     (case SYMBOL_RAW_ROUTE_INFO ctx of
        Some info \<Rightarrow> Inr info
      | None \<Rightarrow>
          (case request ctx of
             None \<Rightarrow> Inl TypeError
           | Some q \<Rightarrow>
               Inr \<lparr>RawRouteInfo.method_prop = or_empty (Request.method_prop q),
                    RawRouteInfo.path = Request.path q\<rparr>))"

text \<open>
  \<open>next(err)\<close> reads the last element of the array, without removing it, and calls it
  with \<open>err\<close> when there is one (an index of \<open>-1\<close> reads \<open>undefined\<close>; a function is never
  falsy). The continuation is a closure that may change the Context and the store and may
  throw: \<open>run\<close> gives the effect of calling a continuation.
\<close>

definition next_ctx ::
  "('k \<Rightarrow> 'e option \<Rightarrow> ('k, 's) World \<Rightarrow> error + ('k, 's) World) \<Rightarrow>
   'e option \<Rightarrow> ('k, 's) World \<Rightarrow> error + ('k, 's) World" where
  "next_ctx run err w =
     (case nextHandleStack (fst w) of
        [] \<Rightarrow> Inr w
      | _ # _ \<Rightarrow> run (last (nextHandleStack (fst w))) err w)"

text \<open>\<open>Array.prototype.push\<close>: the continuation goes to the end of the array.\<close>

definition SYMBOL_PUSH_NEXT_HANDLE :: "'k \<Rightarrow> ('k, 's) Context \<Rightarrow> ('k, 's) Context" where
  "SYMBOL_PUSH_NEXT_HANDLE k ctx = ctx\<lparr>nextHandleStack := nextHandleStack ctx @ [k]\<rparr>"

text \<open>
  \<open>Array.prototype.pop\<close>: the last element is removed and returned; on an empty array
  the result is \<open>undefined\<close> and the array stays empty.
\<close>

definition SYMBOL_POP_NEXT_HANDLE :: "('k, 's) Context \<Rightarrow> 'k option \<times> ('k, 's) Context" where
  "SYMBOL_POP_NEXT_HANDLE ctx =
     (case nextHandleStack ctx of
        [] \<Rightarrow> (None, ctx)
      | _ # _ \<Rightarrow>
          (Some (last (nextHandleStack ctx)),
           ctx\<lparr>nextHandleStack := butlast (nextHandleStack ctx)\<rparr>))"

text \<open>
  The call \<open>proxyRequest(req, res, target)\<close> that \<open>proxyWithHeaders\<close> ends with.
  \<open>proxyRequest\<close> belongs to \<open>./module/proxy.request\<close>, which is not part of the available
  source: the embedding stops at the call and returns its arguments, with the store as it
  is when the call is made.
\<close>

record ProxyCall =
  call_req :: IncomingMessage
  call_res :: ServerResponse
  call_target :: ProxyTarget

text \<open>The loop \<open>for (const n of removeHeaderNames) delete originalHeaders[n]\<close>.\<close>

fun delete_names :: "ref \<Rightarrow> string list \<Rightarrow> Store \<Rightarrow> Store" where
  "delete_names a [] st = st"
| "delete_names a (n # ns) st = delete_names a ns (delete_property a n st)"

text \<open>The default value of the parameter \<open>removeHeaderNames\<close> (\<open>None\<close> is an omitted argument).\<close>

definition removeHeaderNames_default :: "string list option \<Rightarrow> string list" where
  "removeHeaderNames_default names = (case names of None \<Rightarrow> [''host''] | Some ns \<Rightarrow> ns)"

text \<open>
  \<open>proxyWithHeaders(url, removeHeaderNames)\<close>. \<open>parseProxyTarget\<close> belongs to
  \<open>./module/proxy.request\<close> and is a parameter; it may throw.
\<close>

definition proxyWithHeaders ::
  "(string \<Rightarrow> error + ProxyTarget) \<Rightarrow> string \<Rightarrow> string list option \<Rightarrow>
   ('k, 's) World \<Rightarrow> error + (ProxyCall \<times> Store)" where
  "proxyWithHeaders parseProxyTarget url removeHeaderNames w =
     (case w of (ctx, st) \<Rightarrow>
        (case parseProxyTarget url of
           Inl e \<Rightarrow> Inl e
         | Inr target \<Rightarrow>
             (case request ctx of
                None \<Rightarrow> Inl TypeError
              | Some q \<Rightarrow>
                  (case object_spread (Request.headers q) st of
                     (originalHeaders, st1) \<Rightarrow>
                       let st2 = delete_names originalHeaders
                                   (removeHeaderNames_default removeHeaderNames) st1;
                           target' = target\<lparr>ProxyTarget.headers := Some originalHeaders\<rparr>
                       in (case response ctx of
                             None \<Rightarrow> Inl TypeError
                           | Some s \<Rightarrow>
                               Inr (\<lparr>call_req = req q, call_res = res s,
                                     call_target = target'\<rparr>, st2))))))"

subsection \<open>Drivers and sample objects\<close>

text \<open>Pushing a sequence of continuations, one call of the push operation each.\<close>

fun push_each :: "'k list \<Rightarrow> ('k, 's) Context \<Rightarrow> ('k, 's) Context" where
  "push_each [] ctx = ctx"
| "push_each (k # ks) ctx = push_each ks (SYMBOL_PUSH_NEXT_HANDLE k ctx)"

text \<open>
  A continuation leaves the stack alone when no call of it, whatever the error argument
  and the state, returns with a stack other than the one it was called on.
\<close>

definition keeps_stack ::
  "('k \<Rightarrow> 'e option \<Rightarrow> ('k, 's) World \<Rightarrow> error + ('k, 's) World) \<Rightarrow> 'k \<Rightarrow> bool" where
  "keeps_stack run k \<longleftrightarrow>
     (\<forall>e w w'. run k e w = Inr w' \<longrightarrow> nextHandleStack (fst w') = nextHandleStack (fst w))"

text \<open>
  Sample objects: wrapper constructors that keep the raw object (the header table of the
  raw request \<open>r\<close> is at reference \<open>r\<close>), a store with one inbound header table at
  reference 1, a parser of proxy targets that rejects the empty URL, a continuation that
  returns at once and one that throws.
\<close>

definition sample_Request :: "IncomingMessage \<Rightarrow> Request" where
  "sample_Request r =
     \<lparr>req = r, Request.method_prop = Some ''GET'', Request.path = ''/a'',
      Request.headers = r\<rparr>"

definition sample_Response :: "ServerResponse \<Rightarrow> Response" where
  "sample_Response r = \<lparr>res = r\<rparr>"

definition sample_store :: Store where
  "sample_store =
     \<lparr>headerObjs = (\<lambda>_. Map.empty)
        (1 := [''host'' \<mapsto> ''a.example'', ''accept'' \<mapsto> ''text/html'']),
      fresh = 2,
      responses = (\<lambda>_. \<lparr>out_headers = Map.empty, once_finish = [],
                          write_head_hooks = []\<rparr>)\<rparr>"

definition sample_ctx :: "(nat, unit) Context" where
  "sample_ctx = newContext sample_Request sample_Response"

text \<open>The sample Context as \<open>init\<close> on the raw pair \<open>(1, 1)\<close> leaves it.\<close>

definition sample_inited_ctx :: "(nat, unit) Context" where
  "sample_inited_ctx =
     sample_ctx\<lparr>request_slot := Some (sample_Request 1),
                response_slot := Some (sample_Response 1)\<rparr>"

definition sample_parse :: "string \<Rightarrow> error + ProxyTarget" where
  "sample_parse url =
     (if url = [] then Inl (Error ''invalid url'')
      else Inr \<lparr>protocol = ''http:'', host = ''b.example'', port = ''80'',
                ProxyTarget.path = ''/'', ProxyTarget.headers = None\<rparr>)"

definition idle ::
  "nat \<Rightarrow> unit option \<Rightarrow> (nat, unit) World \<Rightarrow> error + (nat, unit) World" where
  "idle k e w = Inr w"

definition thrower ::
  "nat \<Rightarrow> unit option \<Rightarrow> (nat, unit) World \<Rightarrow> error + (nat, unit) World" where
  "thrower k e w = Inl (Error ''called'')"

section \<open>Properties\<close>

subsection \<open>The continuation stack\<close>

lemma next_ctx_empty:
  "nextHandleStack (fst w) = [] \<Longrightarrow> next_ctx run err w = Inr w"
  by (simp add: next_ctx_def)

lemma next_ctx_nonempty:
  "nextHandleStack (fst w) \<noteq> [] \<Longrightarrow>
   next_ctx run err w = run (last (nextHandleStack (fst w))) err w"
  by (cases "nextHandleStack (fst w)") (simp_all add: next_ctx_def)

lemma push_each_stack:
  "push_each ks ctx = ctx\<lparr>nextHandleStack := nextHandleStack ctx @ ks\<rparr>"
  by (induction ks arbitrary: ctx) (simp_all add: SYMBOL_PUSH_NEXT_HANDLE_def)

lemma pop_nonempty:
  "nextHandleStack ctx \<noteq> [] \<Longrightarrow>
   SYMBOL_POP_NEXT_HANDLE ctx =
     (Some (last (nextHandleStack ctx)), ctx\<lparr>nextHandleStack := butlast (nextHandleStack ctx)\<rparr>)"
  by (cases "nextHandleStack ctx") (simp_all add: SYMBOL_POP_NEXT_HANDLE_def)

text \<open>
  Claim C4. On a Context whose continuation stack is empty, \<open>next\<close> returns without
  raising and without calling anything, whatever the error argument, and leaves the state
  as it is; popping from the empty stack returns \<open>undefined\<close> and leaves the Context as
  it is.
\<close>

theorem next_on_empty_stack_is_noop:
  "nextHandleStack ctx = [] \<Longrightarrow>
   next_ctx run err (ctx, st) = Inr (ctx, st) \<and> SYMBOL_POP_NEXT_HANDLE ctx = (None, ctx)"
  by (simp add: next_ctx_def SYMBOL_POP_NEXT_HANDLE_def)

text \<open>
  A new Context has an empty stack; \<open>next\<close> with an error argument does not reach the
  continuation semantics (which here would throw).
\<close>

theorem next_on_empty_stack_is_noop_witness:
  "nextHandleStack sample_ctx = [] \<and>
   next_ctx thrower (Some ()) (sample_ctx, sample_store) = Inr (sample_ctx, sample_store) \<and>
   SYMBOL_POP_NEXT_HANDLE sample_ctx = (None, sample_ctx)"
proof -
  have e: "nextHandleStack sample_ctx = []"
    by (simp add: sample_ctx_def newContext_def)
  from next_on_empty_stack_is_noop [OF e, of thrower "Some ()" sample_store] e
  show ?thesis by simp
qed

text \<open>
  Claim C1, as the code has it. On a Context whose continuation stack is not empty,
  \<open>next(err)\<close> calls the top continuation with \<open>err\<close> on the state as it is, the
  continuation still on top of the stack: \<open>next\<close> removes nothing. Removing the top
  continuation is what the separate pop operation does.
\<close>

theorem next_invokes_top_without_popping:
  "nextHandleStack ctx \<noteq> [] \<Longrightarrow>
   next_ctx run err (ctx, st) = run (last (nextHandleStack ctx)) err (ctx, st) \<and>
   SYMBOL_POP_NEXT_HANDLE ctx =
     (Some (last (nextHandleStack ctx)),
      ctx\<lparr>nextHandleStack := butlast (nextHandleStack ctx)\<rparr>)"
  by (simp add: next_ctx_nonempty pop_nonempty)

text \<open>
  With one continuation pushed, \<open>next\<close> reaches it (here it throws), and pop gives it back.
\<close>

theorem next_invokes_top_without_popping_witness:
  "nextHandleStack (SYMBOL_PUSH_NEXT_HANDLE 7 sample_ctx) \<noteq> [] \<and>
   next_ctx thrower None (SYMBOL_PUSH_NEXT_HANDLE 7 sample_ctx, sample_store) =
     Inl (Error ''called'') \<and>
   SYMBOL_POP_NEXT_HANDLE (SYMBOL_PUSH_NEXT_HANDLE 7 sample_ctx) = (Some 7, sample_ctx)"
proof -
  have n: "nextHandleStack (SYMBOL_PUSH_NEXT_HANDLE 7 sample_ctx) \<noteq> []"
    by (simp add: SYMBOL_PUSH_NEXT_HANDLE_def)
  from next_invokes_top_without_popping [OF n, of thrower None sample_store] n
  show ?thesis
    by (simp add: SYMBOL_PUSH_NEXT_HANDLE_def thrower_def sample_ctx_def newContext_def)
qed

text \<open>
  Claim C1 as stated fails: with the continuation 7 on the stack and a continuation
  semantics that does nothing, the state after \<open>next()\<close> is the state before it, and
  7 is still on the stack.
\<close>

theorem next_pops_top_counterexample:
  "next_ctx idle None (SYMBOL_PUSH_NEXT_HANDLE 7 sample_ctx, sample_store) =
     Inr (SYMBOL_PUSH_NEXT_HANDLE 7 sample_ctx, sample_store) \<and>
   nextHandleStack (SYMBOL_PUSH_NEXT_HANDLE 7 sample_ctx) = [7] \<and>
   7 \<in> set (nextHandleStack (SYMBOL_PUSH_NEXT_HANDLE 7 sample_ctx)) \<and>
   nextHandleStack (SYMBOL_PUSH_NEXT_HANDLE 7 sample_ctx) \<noteq>
     butlast (nextHandleStack (SYMBOL_PUSH_NEXT_HANDLE 7 sample_ctx))"
  by (simp add: next_ctx_def idle_def SYMBOL_PUSH_NEXT_HANDLE_def sample_ctx_def newContext_def)

text \<open>
  Claim C5. After any non-empty sequence of pushes, \<open>next\<close> calls the continuation
  pushed last, and pop returns that same continuation, leaving the Context as it was
  after the pushes before it (so the one pushed before it is the next top).
\<close>

theorem continuation_stack_lifo:
  "ks \<noteq> [] \<Longrightarrow>
   next_ctx run err (push_each ks ctx, st) = run (last ks) err (push_each ks ctx, st) \<and>
   SYMBOL_POP_NEXT_HANDLE (push_each ks ctx) = (Some (last ks), push_each (butlast ks) ctx)"
  by (simp add: next_ctx_nonempty pop_nonempty push_each_stack butlast_append)

text \<open>
  Three pushes: \<open>next\<close> calls the third continuation, pop returns it.
\<close>

theorem continuation_stack_lifo_witness:
  "[1, 2, 3] \<noteq> ([] :: nat list) \<and>
   next_ctx thrower None (push_each [1, 2, 3] sample_ctx, sample_store) = Inl (Error ''called'') \<and>
   next_ctx idle None (push_each [1, 2, 3] sample_ctx, sample_store) =
     idle 3 None (push_each [1, 2, 3] sample_ctx, sample_store) \<and>
   SYMBOL_POP_NEXT_HANDLE (push_each [1, 2, 3] sample_ctx) = (Some 3, push_each [1, 2] sample_ctx)"
proof -
  have n: "[1, 2, 3] \<noteq> ([] :: nat list)" by simp
  from continuation_stack_lifo [OF n, of thrower None sample_ctx sample_store]
       continuation_stack_lifo [OF n, of idle None sample_ctx sample_store]
  show ?thesis by (simp add: thrower_def)
qed

text \<open>
  Claim C10. \<open>next(err)\<close> itself neither pushes nor removes: the call it makes is the
  call of the top continuation on the unchanged state. Hence, when that continuation leaves
  the stack alone (no intervening push or pop), the stack after \<open>next\<close> is the stack
  before it, and a second \<open>next\<close> calls the same continuation again.
\<close>

theorem next_leaves_stack_unchanged:
  "nextHandleStack ctx \<noteq> [] \<Longrightarrow>
   keeps_stack run (last (nextHandleStack ctx)) \<Longrightarrow>
   next_ctx run e1 (ctx, st) = Inr w1 \<Longrightarrow>
   run (last (nextHandleStack ctx)) e1 (ctx, st) = Inr w1 \<and>
   nextHandleStack (fst w1) = nextHandleStack ctx \<and>
   next_ctx run e2 w1 = run (last (nextHandleStack ctx)) e2 w1"
proof -
  assume ne: "nextHandleStack ctx \<noteq> []"
    and ks: "keeps_stack run (last (nextHandleStack ctx))"
    and r: "next_ctx run e1 (ctx, st) = Inr w1"
  from ne r have call: "run (last (nextHandleStack ctx)) e1 (ctx, st) = Inr w1"
    by (simp add: next_ctx_nonempty)
  with ks have same: "nextHandleStack (fst w1) = nextHandleStack ctx"
    unfolding keeps_stack_def by fastforce
  with ne have "next_ctx run e2 w1 = run (last (nextHandleStack ctx)) e2 w1"
    by (simp add: next_ctx_nonempty)
  with call same show ?thesis by simp
qed

text \<open>
  Two pushes and a continuation that returns at once: both calls of \<open>next\<close> reach 5.
\<close>

theorem next_leaves_stack_unchanged_witness:
  "nextHandleStack (push_each [4, 5] sample_ctx) \<noteq> [] \<and>
   keeps_stack idle (last (nextHandleStack (push_each [4, 5] sample_ctx))) \<and>
   next_ctx idle None (push_each [4, 5] sample_ctx, sample_store) =
     Inr (push_each [4, 5] sample_ctx, sample_store) \<and>
   nextHandleStack (push_each [4, 5] sample_ctx) = [4, 5] \<and>
   next_ctx idle (Some ()) (push_each [4, 5] sample_ctx, sample_store) =
     idle 5 (Some ()) (push_each [4, 5] sample_ctx, sample_store)"
proof -
  let ?c = "push_each [4, 5] sample_ctx"
  have st: "nextHandleStack ?c = [4, 5]"
    by (simp add: SYMBOL_PUSH_NEXT_HANDLE_def sample_ctx_def newContext_def)
  have ne: "nextHandleStack ?c \<noteq> []" using st by simp
  have ks: "keeps_stack idle (last (nextHandleStack ?c))"
    by (simp add: keeps_stack_def idle_def)
  have r: "next_ctx idle None (?c, sample_store) = Inr (?c, sample_store)"
    using st by (simp add: next_ctx_def idle_def)
  from next_leaves_stack_unchanged [OF ne ks r, of "Some ()"] ne ks r st
  show ?thesis by simp
qed

subsection \<open>Session and route\<close>

text \<open>
  Claim C7. On a Context with no session attached, reading \<open>session\<close> raises an
  Error at once; with a session attached (by the session component's assignment to the
  field), reading it returns exactly that session.
\<close>

theorem session_raises_until_attached:
  "(SYMBOL_SESSION ctx = None \<longrightarrow>
      session ctx =
        Inl (Error ''ctx.session: please use component.session() middleware firstly'')) \<and>
   (SYMBOL_SESSION ctx = Some s \<longrightarrow> session ctx = Inr s) \<and>
   session (ctx\<lparr>SYMBOL_SESSION := Some s\<rparr>) = Inr s"
  by (simp add: session_def)

text \<open>
  A new Context has no session and the getter raises; after attaching one it is returned.
\<close>

theorem session_raises_until_attached_witness:
  "SYMBOL_SESSION sample_ctx = None \<and> isl (session sample_ctx) \<and>
   SYMBOL_SESSION (sample_ctx\<lparr>SYMBOL_SESSION := Some ()\<rparr>) = Some () \<and>
   session (sample_ctx\<lparr>SYMBOL_SESSION := Some ()\<rparr>) = Inr ()"
proof -
  have n: "SYMBOL_SESSION sample_ctx = None"
    by (simp add: sample_ctx_def newContext_def)
  from session_raises_until_attached [of sample_ctx "()"]
       session_raises_until_attached [of "sample_ctx\<lparr>SYMBOL_SESSION := Some ()\<rparr>" "()"] n
  show ?thesis by simp
qed

text \<open>
  Claim C8. Reading \<open>route\<close> returns the attached route information when there is one;
  otherwise, on a Context that has its request wrapper, it returns the method and path of
  the request, the method being the empty string when the request has none.
\<close>

theorem route_attached_or_derived:
  "(SYMBOL_RAW_ROUTE_INFO ctx = Some info \<longrightarrow> route ctx = Inr info) \<and>
   (SYMBOL_RAW_ROUTE_INFO ctx = None \<and> request_slot ctx = Some q \<longrightarrow>
      route ctx =
        Inr \<lparr>RawRouteInfo.method_prop =
               (case Request.method_prop q of None \<Rightarrow> [] | Some m \<Rightarrow> m),
             RawRouteInfo.path = Request.path q\<rparr>)"
  by (simp add: route_def request_def or_empty_def split: option.splits)

text \<open>
  An attached route is returned as it is; the initialised sample gives \<open>GET /a\<close>; a
  request without a method gives the empty method.
\<close>

theorem route_attached_or_derived_witness:
  "SYMBOL_RAW_ROUTE_INFO
     (sample_ctx\<lparr>SYMBOL_RAW_ROUTE_INFO :=
        Some \<lparr>RawRouteInfo.method_prop = ''POST'', RawRouteInfo.path = ''/x''\<rparr>\<rparr>) =
     Some \<lparr>RawRouteInfo.method_prop = ''POST'', RawRouteInfo.path = ''/x''\<rparr> \<and>
   route (sample_ctx\<lparr>SYMBOL_RAW_ROUTE_INFO :=
        Some \<lparr>RawRouteInfo.method_prop = ''POST'', RawRouteInfo.path = ''/x''\<rparr>\<rparr>) =
     Inr \<lparr>RawRouteInfo.method_prop = ''POST'', RawRouteInfo.path = ''/x''\<rparr> \<and>
   SYMBOL_RAW_ROUTE_INFO sample_inited_ctx = None \<and>
   request_slot sample_inited_ctx = Some (sample_Request 1) \<and>
   route sample_inited_ctx =
     Inr \<lparr>RawRouteInfo.method_prop = ''GET'', RawRouteInfo.path = ''/a''\<rparr> \<and>
   route (sample_inited_ctx
            \<lparr>request_slot := Some ((sample_Request 1)\<lparr>Request.method_prop := None\<rparr>)\<rparr>) =
     Inr \<lparr>RawRouteInfo.method_prop = [], RawRouteInfo.path = ''/a''\<rparr>"
proof -
  let ?info = "\<lparr>RawRouteInfo.method_prop = ''POST'', RawRouteInfo.path = ''/x''\<rparr>"
  let ?c = "sample_inited_ctx
              \<lparr>request_slot := Some ((sample_Request 1)\<lparr>Request.method_prop := None\<rparr>)\<rparr>"
  have n: "SYMBOL_RAW_ROUTE_INFO sample_inited_ctx = None"
    "SYMBOL_RAW_ROUTE_INFO ?c = None"
    by (simp_all add: sample_inited_ctx_def sample_ctx_def newContext_def)
  have q: "request_slot sample_inited_ctx = Some (sample_Request 1)"
    by (simp add: sample_inited_ctx_def)
  from route_attached_or_derived
         [of "sample_ctx\<lparr>SYMBOL_RAW_ROUTE_INFO := Some ?info\<rparr>" ?info]
       route_attached_or_derived [of sample_inited_ctx ?info "sample_Request 1"]
       route_attached_or_derived
         [of ?c ?info "(sample_Request 1)\<lparr>Request.method_prop := None\<rparr>"] n q
  show ?thesis by (simp add: sample_Request_def)
qed

subsection \<open>Initialisation\<close>

lemma init_result:
  "init rq rs (ctx, st) =
     Inr (ctx\<lparr>request_slot := Some (requestConstructor ctx rq),
              response_slot := Some (responseConstructor ctx rs)\<rparr>,
          onWriteHead rs WriteHead
            (once_finish_listener rs Finish
               (setHeader (responseConstructor ctx rs) ''X-Powered-By'' ''@leizm/web'' st)))"
  by (simp add: init_def Let_def response_def inited_def createRequest_def
      createResponse_def Request_inited_def Response_inited_def)

lemma out_headers_after_listeners:
  "out_headers (responses (onWriteHead r e (once_finish_listener r' e' st)) a) =
   out_headers (responses st a)"
  by (simp add: onWriteHead_def once_finish_listener_def)

text \<open>
  The initialised sample Context is what \<open>init\<close> returns on the new sample Context.
\<close>

lemma init_sample:
  "\<exists>st'. init 1 1 (sample_ctx, sample_store) = Inr (sample_inited_ctx, st')"
  by (simp add: init_result sample_inited_ctx_def sample_ctx_def newContext_def)

text \<open>
  Claim C6. For every raw pair, every Context and every store, \<open>init\<close> returns, and on
  the raw response of the Response wrapper it installed the header \<open>X-Powered-By\<close> has
  the value \<open>@leizm/web\<close>: the same constant for every request.
\<close>

theorem init_sets_marker_header:
  "\<exists>ctx' st'. init rq rs (ctx, st) = Inr (ctx', st') \<and>
      response_slot ctx' = Some (responseConstructor ctx rs) \<and>
      out_headers (responses st' (res (responseConstructor ctx rs))) ''X-Powered-By'' =
        Some ''@leizm/web''"
  by (simp add: init_result out_headers_after_listeners) (simp add: setHeader_def)






subsection \<open>Forwarding with filtered headers\<close>

lemma headerObjs_delete_names:
  "headerObjs (delete_names a ns st) b n =
     (if b = a \<and> n \<in> set ns then None else headerObjs st b n)"
  by (induction ns arbitrary: st) (simp_all add: delete_property_def)

lemma headerObjs_spread:
  "headerObjs (snd (object_spread a st)) b =
     (if b = fresh st then headerObjs st a else headerObjs st b)"
  by (simp add: object_spread_def)

lemma proxyWithHeaders_result:
  "parseProxyTarget url = Inr target \<Longrightarrow> request_slot ctx = Some q \<Longrightarrow>
   response_slot ctx = Some s \<Longrightarrow>
   proxyWithHeaders parseProxyTarget url names (ctx, st) =
     Inr (\<lparr>call_req = req q, call_res = res s,
           call_target = target\<lparr>ProxyTarget.headers := Some (fresh st)\<rparr>\<rparr>,
          delete_names (fresh st) (removeHeaderNames_default names)
            (snd (object_spread (Request.headers q) st)))"
  by (simp add: proxyWithHeaders_def request_def response_def object_spread_def Let_def)

text \<open>
  Claim C2. On an initialised Context and a URL that \<open>parseProxyTarget\<close> accepts,
  \<open>proxyWithHeaders\<close> reaches the upstream call, and the header table it supplies as
  \<open>target.headers\<close> has no entry under a name of the removal list and, under every other
  name, the entry of the inbound header table; with the removal list omitted, it has no
  entry under \<open>host\<close>.
\<close>

theorem proxyWithHeaders_removes_named_headers:
  "parseProxyTarget url = Inr target \<Longrightarrow> request_slot ctx = Some q \<Longrightarrow>
   response_slot ctx = Some s \<Longrightarrow>
   \<exists>h st'.
     proxyWithHeaders parseProxyTarget url names (ctx, st) =
       Inr (\<lparr>call_req = req q, call_res = res s,
             call_target = target\<lparr>ProxyTarget.headers := Some h\<rparr>\<rparr>, st') \<and>
     (\<forall>n. headerObjs st' h n =
        (if n \<in> set (case names of None \<Rightarrow> [''host''] | Some ns \<Rightarrow> ns) then None
         else headerObjs st (Request.headers q) n)) \<and>
     (names = None \<longrightarrow> headerObjs st' h ''host'' = None)"
proof -
  assume p: "parseProxyTarget url = Inr target" and q: "request_slot ctx = Some q"
    and s: "response_slot ctx = Some s"
  let ?ns = "removeHeaderNames_default names"
  let ?st' = "delete_names (fresh st) ?ns (snd (object_spread (Request.headers q) st))"
  have call: "proxyWithHeaders parseProxyTarget url names (ctx, st) =
       Inr (\<lparr>call_req = req q, call_res = res s,
             call_target = target\<lparr>ProxyTarget.headers := Some (fresh st)\<rparr>\<rparr>, ?st')"
    using p q s by (simp add: proxyWithHeaders_result)
  have ns: "?ns = (case names of None \<Rightarrow> [''host''] | Some ns \<Rightarrow> ns)"
    by (simp add: removeHeaderNames_default_def)
  have tab: "headerObjs ?st' (fresh st) n =
        (if n \<in> set ?ns then None else headerObjs st (Request.headers q) n)" for n
    by (simp add: headerObjs_delete_names headerObjs_spread)
  have host: "names = None \<longrightarrow> headerObjs ?st' (fresh st) ''host'' = None"
  proof
    assume "names = None"
    then have "''host'' \<in> set ?ns" by (simp add: removeHeaderNames_default_def)
    then show "headerObjs ?st' (fresh st) ''host'' = None" by (simp only: tab if_True)
  qed
  from call tab host show ?thesis
    unfolding ns by blast
qed

text \<open>
  The sample request has the headers \<open>host\<close> and \<open>accept\<close>: the default list removes
  \<open>host\<close> only, the list \<open>["accept"]\<close> removes \<open>accept\<close> only.
\<close>

theorem proxyWithHeaders_removes_named_headers_witness:
  "sample_parse ''http://b.example/'' = Inr (projr (sample_parse ''http://b.example/'')) \<and>
   request_slot sample_inited_ctx = Some (sample_Request 1) \<and>
   response_slot sample_inited_ctx = Some (sample_Response 1) \<and>
   (\<exists>h st'.
      proxyWithHeaders sample_parse ''http://b.example/'' None
          (sample_inited_ctx, sample_store) =
        Inr (\<lparr>call_req = 1, call_res = 1,
              call_target = (projr (sample_parse ''http://b.example/''))
                \<lparr>ProxyTarget.headers := Some h\<rparr>\<rparr>, st') \<and>
      headerObjs st' h ''host'' = None \<and>
      headerObjs st' h ''accept'' = Some ''text/html'') \<and>
   (\<exists>h st'.
      proxyWithHeaders sample_parse ''http://b.example/'' (Some [''accept''])
          (sample_inited_ctx, sample_store) =
        Inr (\<lparr>call_req = 1, call_res = 1,
              call_target = (projr (sample_parse ''http://b.example/''))
                \<lparr>ProxyTarget.headers := Some h\<rparr>\<rparr>, st') \<and>
      headerObjs st' h ''host'' = Some ''a.example'' \<and>
      headerObjs st' h ''accept'' = None)"
proof -
  let ?t = "projr (sample_parse ''http://b.example/'')"
  have p: "sample_parse ''http://b.example/'' = Inr ?t"
    by (simp add: sample_parse_def)
  have q: "request_slot sample_inited_ctx = Some (sample_Request 1)"
    by (simp add: sample_inited_ctx_def)
  have s: "response_slot sample_inited_ctx = Some (sample_Response 1)"
    by (simp add: sample_inited_ctx_def)
  have tab: "headerObjs sample_store (Request.headers (sample_Request 1)) ''host'' =
               Some ''a.example'' \<and>
             headerObjs sample_store (Request.headers (sample_Request 1)) ''accept'' =
               Some ''text/html''"
    by (simp add: sample_store_def sample_Request_def)
  from proxyWithHeaders_removes_named_headers
         [of sample_parse "''http://b.example/''" ?t sample_inited_ctx "sample_Request 1"
             "sample_Response 1" None sample_store, OF p q s]
  obtain h st' where d:
    "proxyWithHeaders sample_parse ''http://b.example/'' None
          (sample_inited_ctx, sample_store) =
        Inr (\<lparr>call_req = 1, call_res = 1,
              call_target = ?t\<lparr>ProxyTarget.headers := Some h\<rparr>\<rparr>, st')"
    "headerObjs st' h ''host'' = None"
    "headerObjs st' h ''accept'' = Some ''text/html''"
    using tab by (auto simp: sample_Request_def sample_Response_def)
  from proxyWithHeaders_removes_named_headers
         [of sample_parse "''http://b.example/''" ?t sample_inited_ctx "sample_Request 1"
             "sample_Response 1" "Some [''accept'']" sample_store, OF p q s]
  obtain h2 st2 where c:
    "proxyWithHeaders sample_parse ''http://b.example/'' (Some [''accept''])
          (sample_inited_ctx, sample_store) =
        Inr (\<lparr>call_req = 1, call_res = 1,
              call_target = ?t\<lparr>ProxyTarget.headers := Some h2\<rparr>\<rparr>, st2)"
    "headerObjs st2 h2 ''host'' = Some ''a.example''"
    "headerObjs st2 h2 ''accept'' = None"
    using tab by (auto simp: sample_Request_def sample_Response_def)
  from p q s d c show ?thesis by blast
qed

text \<open>
  Claim C9. \<open>proxyWithHeaders\<close> works on a copy: when the upstream call is made, the
  header table of the inbound request (an allocated object of the store) is as it was
  before, and so is every other object allocated before the call.
\<close>

theorem proxyWithHeaders_keeps_inbound_headers:
  "parseProxyTarget url = Inr target \<Longrightarrow> request_slot ctx = Some q \<Longrightarrow>
   response_slot ctx = Some s \<Longrightarrow> Request.headers q < fresh st \<Longrightarrow>
   \<exists>call st'.
     proxyWithHeaders parseProxyTarget url names (ctx, st) = Inr (call, st') \<and>
     headerObjs st' (Request.headers q) = headerObjs st (Request.headers q) \<and>
     (\<forall>a < fresh st. headerObjs st' a = headerObjs st a)"
proof -
  assume p: "parseProxyTarget url = Inr target" and q: "request_slot ctx = Some q"
    and s: "response_slot ctx = Some s" and alloc: "Request.headers q < fresh st"
  let ?st' = "delete_names (fresh st) (removeHeaderNames_default names)
                (snd (object_spread (Request.headers q) st))"
  have old: "headerObjs ?st' a = headerObjs st a" if "a < fresh st" for a
    using that by (intro ext) (simp add: headerObjs_delete_names headerObjs_spread)
  have "\<exists>call. proxyWithHeaders parseProxyTarget url names (ctx, st) = Inr (call, ?st')"
    using p q s by (simp add: proxyWithHeaders_result)
  with old alloc show ?thesis by blast
qed

text \<open>
  After the call with the default list, the inbound table at reference 1 still has \<open>host\<close>.
\<close>

theorem proxyWithHeaders_keeps_inbound_headers_witness:
  "sample_parse ''http://b.example/'' = Inr (projr (sample_parse ''http://b.example/'')) \<and>
   request_slot sample_inited_ctx = Some (sample_Request 1) \<and>
   response_slot sample_inited_ctx = Some (sample_Response 1) \<and>
   Request.headers (sample_Request 1) < fresh sample_store \<and>
   (\<exists>call st'.
      proxyWithHeaders sample_parse ''http://b.example/'' None
          (sample_inited_ctx, sample_store) = Inr (call, st') \<and>
      headerObjs st' 1 = headerObjs sample_store 1 \<and>
      headerObjs st' 1 ''host'' = Some ''a.example'')"
proof -
  let ?t = "projr (sample_parse ''http://b.example/'')"
  have p: "sample_parse ''http://b.example/'' = Inr ?t"
    by (simp add: sample_parse_def)
  have q: "request_slot sample_inited_ctx = Some (sample_Request 1)"
    by (simp add: sample_inited_ctx_def)
  have s: "response_slot sample_inited_ctx = Some (sample_Response 1)"
    by (simp add: sample_inited_ctx_def)
  have a: "Request.headers (sample_Request 1) < fresh sample_store"
    by (simp add: sample_Request_def sample_store_def)
  have h1: "Request.headers (sample_Request 1) = 1"
    by (simp add: sample_Request_def)
  have host: "headerObjs sample_store 1 ''host'' = Some ''a.example''"
    by (simp add: sample_store_def)
  from proxyWithHeaders_keeps_inbound_headers
         [of sample_parse "''http://b.example/''" ?t sample_inited_ctx "sample_Request 1"
             "sample_Response 1" sample_store None, OF p q s a]
  obtain call st' where
    "proxyWithHeaders sample_parse ''http://b.example/'' None
          (sample_inited_ctx, sample_store) = Inr (call, st')"
    "headerObjs st' 1 = headerObjs sample_store 1"
    unfolding h1 by blast
  with p q s a host show ?thesis by auto
qed

end
